theory Spec2Isabelle
  imports Complex_Main
begin

section \<open>The red-or-black round engine of server.js\<close>

text \<open>
  The file server.js holds two variants of the same server one after the other: the
  first (three statuses, one countdown \<open>serverTimeLeft\<close>) and the second (an
  additional in-memory \<open>currentPhase\<close> with its own countdown \<open>phaseTimeLeft\<close>).
  Functions that differ are embedded twice, with the suffixes \<open>_v1\<close> and \<open>_v2\<close>;
  the mark-paid and set-prize routes are the same text in both and are embedded once.

  Conventions of the embedding.
  \<^item> The four MongoDB collections are lists of documents in insertion order;
    \<open>Model.findOne(q)\<close> is \<^const>\<open>find\<close> with the query as a predicate, and
    \<open>doc.save()\<close> of a document obtained by \<open>findOne(q)\<close> rewrites that very
    document (\<open>updateOne\<close> below). Database calls are taken to succeed.
  \<^item> Every route handler and every timer callback runs from start to end without
    another one in between (the \<open>await\<close> points are not interleaving points here).
  \<^item> JavaScript numbers that count (round numbers, tallies) are \<^typ>\<open>int\<close>; amounts
    and countdown values are exact rationals; \<open>Math.random()\<close> is a parameter \<open>r\<close> of
    the function that draws, a rational with \<open>0 \<le> r < 1\<close>.
  \<^item> \<open>roundId\<close> of a vote is \<open>roundNumber.toString()\<close>; decimal rendering is
    injective, so the field holds the number itself.
  \<^item> Dates (\<open>startTime\<close>, \<open>endTime\<close>, \<open>lastUpdated\<close>), logging and the
    socket broadcast change no field that is read back, and are left out.
  \<^item> An exception inside a timer callback ends the callback at that point; what it
    saved before stays saved.
  \<^item> Since database calls succeed, the second variant's demo mode (the \<open>catch\<close>
    branches that run when a database call fails) is never entered.
\<close>

subsection \<open>Documents\<close>

datatype color = Red | Black

datatype status = Voting | Spinning | Completed

record participant_doc =
  participantAddress :: string
  tokenBalance :: int
  isVerified :: bool

record vote_doc =
  walletAddress :: string
  roundId :: int
  color :: color

record tally =
  red :: int
  black :: int

record round_doc =
  roundNumber :: int
  status :: status
  votes :: tally
  participants :: "string list"
  winningColor :: "color option"
  winner :: "string option"
  prizeAmount :: rat

record game_state =
  currentRound :: int
  totalPrizesGiven :: rat
  lastWinner :: "string option"
  lastPrizeAmount :: rat
  isActive :: bool
  totalRoundsPlayed :: int

subsection \<open>Module state\<close>

datatype phase = PhaseVoting | PhaseSpinning | PhaseResults

text \<open>Which \<open>setInterval\<close> callback the variable \<open>serverTimerInterval\<close> refers to, and
  the callbacks handed to \<open>setTimeout\<close> that have not fired yet. (\<open>roundTimer\<close> is
  never assigned in either variant, so \<open>clearTimeout(roundTimer)\<close> never cancels. An
  interval whose handle is overwritten without \<open>clearInterval\<close> is no longer tracked;
  what is proved about a countdown callback holds whenever it fires.)\<close>

datatype interval = VotingCountdown | SpinCountdown | ResultsCountdown

datatype timeout = SelectWinner | PerformAutomaticSpin | StartNextRound

text \<open>The state of a server: the two values of \<open>CONFIG\<close> that the code reads, the
  four collections (\<open>GameState\<close> holds at most one document), and the module's
  variables. \<open>currentGameState\<close> is \<open>null\<close> until \<open>initializeGameState\<close> has loaded it.\<close>

record server =
  ROUND_DURATION :: int
  MIN_TOKEN_BALANCE :: int
  participantDocs :: "participant_doc list"
  voteDocs :: "vote_doc list"
  roundDocs :: "round_doc list"
  gameStateDoc :: "game_state option"
  currentGameState :: "game_state option"
  serverTimeLeft :: rat
  currentPhase :: phase
  phaseTimeLeft :: rat
  serverTimerInterval :: "interval option"
  pendingTimeouts :: "timeout list"

subsection \<open>Requests and responses\<close>

text \<open>The JSON body of a vote request: each field is absent or a string.\<close>

record vote_request =
  reqWalletAddress :: "string option"
  reqColor :: "string option"

datatype api_error =
    InvalidVoteData
  | WalletNotVerified
  | AlreadyVoted color
  | VotingNotActive
  | VotingNotActivePhase phase rat
  | InvalidPrizeAmount
  | CurrentRoundNotFound
  | RoundOrWinnerNotFound
  | InvalidWalletAddress
  | InsufficientTokenBalance int
  | InternalServerError

text \<open>\<open>voteData\<close> of a successful vote, without its \<open>timeLeft\<close> (a date difference
  in the first variant, \<open>phaseTimeLeft\<close> in the second).\<close>

record vote_data =
  vdColor :: color
  vdRoundNumber :: int
  vdVotes :: tally
  vdTotalVoters :: nat





subsection \<open>JavaScript and mongoose helpers\<close>

text \<open>\<open>!v\<close> for a value that is a string, \<open>null\<close> or \<open>undefined\<close>.\<close>

definition falsy :: "string option \<Rightarrow> bool" where
  "falsy v = (case v of None \<Rightarrow> True | Some s \<Rightarrow> s = [])"

text \<open>\<open>["red", "black"].includes(color)\<close>, with the colour it names.\<close>

definition parseColor :: "string \<Rightarrow> color option" where
  "parseColor c = (if c = ''red'' then Some Red else if c = ''black'' then Some Black else None)"

text \<open>\<open>doc.save()\<close> for the document that \<open>findOne(P)\<close> returned: the first document
  matching \<open>P\<close> is replaced by its modified version.\<close>

fun updateOne :: "('a \<Rightarrow> bool) \<Rightarrow> ('a \<Rightarrow> 'a) \<Rightarrow> 'a list \<Rightarrow> 'a list" where
  "updateOne P f [] = []"
| "updateOne P f (x # xs) = (if P x then f x # xs else x # updateOne P f xs)"

text \<open>\<open>currentGameState.save()\<close>: the in-memory document and the stored one agree
  afterwards.\<close>

definition saveGameState :: "game_state \<Rightarrow> server \<Rightarrow> server" where
  "saveGameState g s = s\<lparr>currentGameState := Some g, gameStateDoc := Some g\<rparr>"

text \<open>\<open>new GameState({currentRound: 1, totalPrizesGiven: 0})\<close> and
  \<open>new Round({roundNumber: n, status: "voting", ...})\<close> with the schema defaults.\<close>

definition newGameState :: game_state where
  "newGameState = \<lparr>currentRound = 1, totalPrizesGiven = 0, lastWinner = None,
     lastPrizeAmount = 0, isActive = True, totalRoundsPlayed = 0\<rparr>"

definition newRound :: "int \<Rightarrow> round_doc" where
  "newRound n = \<lparr>roundNumber = n, status = Voting, votes = \<lparr>red = 0, black = 0\<rparr>,
     participants = [], winningColor = None, winner = None, prizeAmount = 0\<rparr>"

text \<open>\<open>currentRound.votes[color] += 1\<close>.\<close>

definition addVote :: "color \<Rightarrow> tally \<Rightarrow> tally" where
  "addVote c t = (case c of Red \<Rightarrow> t\<lparr>red := red t + 1\<rparr> | Black \<Rightarrow> t\<lparr>black := black t + 1\<rparr>)"

subsection \<open>getCurrentGameData and GET /api/history\<close>






subsection \<open>POST /api/verify-wallet\<close>



subsection \<open>POST /api/vote\<close>

text \<open>\<open>!walletAddress || !color || !["red", "black"].includes(color)\<close>: the wallet and
  the colour of a well-formed request.\<close>

definition validVoteData :: "vote_request \<Rightarrow> (string \<times> color) option" where
  "validVoteData req =
     (if falsy (reqWalletAddress req) \<or> falsy (reqColor req) then None
      else
        (case (reqWalletAddress req, reqColor req) of
           (Some w, Some c) \<Rightarrow> map_option (Pair w) (parseColor c)
         | _ \<Rightarrow> None))"

definition recordVote :: "string \<Rightarrow> color \<Rightarrow> round_doc \<Rightarrow> round_doc" where
  "recordVote w c rnd =
     rnd\<lparr>votes := addVote c (votes rnd),
         participants :=
           (if w \<in> set (participants rnd) then participants rnd else participants rnd @ [w])\<rparr>"

text \<open>The first variant's handler; the second variant's handler continues with the
  same text after its phase check.\<close>

definition castVote_v1 :: "vote_request \<Rightarrow> server \<Rightarrow> (api_error + vote_data) \<times> server" where
  "castVote_v1 req s =
     (case validVoteData req of
        None \<Rightarrow> (Inl InvalidVoteData, s)
      | Some (w, c) \<Rightarrow>
          (case find (\<lambda>p. participantAddress p = w \<and> isVerified p) (participantDocs s) of
             None \<Rightarrow> (Inl WalletNotVerified, s)
           | Some participant \<Rightarrow>
               (case currentGameState s of
                  None \<Rightarrow> (Inl InternalServerError, s)
                | Some g \<Rightarrow>
                    (case find (\<lambda>v. walletAddress v = w \<and> roundId v = currentRound g)
                            (voteDocs s) of
                       Some existingVote \<Rightarrow> (Inl (AlreadyVoted (color existingVote)), s)
                     | None \<Rightarrow>
                         (case find (\<lambda>x. roundNumber x = currentRound g \<and> status x = Voting)
                                 (roundDocs s) of
                            None \<Rightarrow> (Inl VotingNotActive, s)
                          | Some currentRnd \<Rightarrow>
                              (Inr \<lparr>vdColor = c, vdRoundNumber = currentRound g,
                                    vdVotes = votes (recordVote w c currentRnd),
                                    vdTotalVoters =
                                      length (participants (recordVote w c currentRnd))\<rparr>,
                               s\<lparr>voteDocs :=
                                    voteDocs s @
                                      [\<lparr>walletAddress = w, roundId = currentRound g,
                                        color = c\<rparr>],
                                  roundDocs :=
                                    updateOne
                                      (\<lambda>x. roundNumber x = currentRound g \<and> status x = Voting)
                                      (recordVote w c) (roundDocs s)\<rparr>))))))"

definition castVote_v2 :: "vote_request \<Rightarrow> server \<Rightarrow> (api_error + vote_data) \<times> server" where
  "castVote_v2 req s =
     (if currentPhase s \<noteq> PhaseVoting
      then (Inl (VotingNotActivePhase (currentPhase s) (phaseTimeLeft s)), s)
      else castVote_v1 req s)"

subsection \<open>POST /api/admin/set-prize (both variants)\<close>


subsection \<open>POST /api/admin/mark-paid (both variants)\<close>



subsection \<open>Outcome selection\<close>

text \<open>\<open>Math.random() < 0.5 ? "red" : "black"\<close> for the draw \<open>r\<close>.\<close>

definition drawColor :: "rat \<Rightarrow> color" where
  "drawColor r = (if r < 1 / 2 then Red else Black)"

text \<open>\<open>Vote.find({roundId: currentRound.roundNumber.toString(), color: winningColor})\<close>.\<close>

definition winningVotesOf :: "round_doc \<Rightarrow> vote_doc list \<Rightarrow> vote_doc list" where
  "winningVotesOf rnd vs =
     filter (\<lambda>v. roundId v = roundNumber rnd \<and> Some (color v) = winningColor rnd) vs"

text \<open>The winner among \<open>winningVotes\<close> for the draw \<open>r\<close>: \<open>null\<close> for no votes,
  otherwise \<open>winningVotes[Math.floor(r * winningVotes.length)].walletAddress\<close>, which
  throws when the index is outside the array.\<close>

datatype pick = Picked "string option" | PickThrows

definition pickWinner :: "rat \<Rightarrow> vote_doc list \<Rightarrow> pick" where
  "pickWinner r winningVotes =
     (if length winningVotes > 0
      then
        (let randomIndex = \<lfloor>r * of_nat (length winningVotes)\<rfloor>
         in if 0 \<le> randomIndex \<and> randomIndex < int (length winningVotes)
            then Picked (Some (walletAddress (winningVotes ! nat randomIndex)))
            else PickThrows)
      else Picked None)"

subsection \<open>Round lifecycle, first variant\<close>

text \<open>\<open>ensureCurrentRound\<close>; \<open>None\<close> is the TypeError of reading the round number of
  a game state that is not loaded.\<close>

definition ensureCurrentRound_v1 :: "server \<Rightarrow> server option" where
  "ensureCurrentRound_v1 s =
     (case currentGameState s of
        None \<Rightarrow> None
      | Some g \<Rightarrow>
          (case find (\<lambda>x. roundNumber x = currentRound g) (roundDocs s) of
             None \<Rightarrow> Some (s\<lparr>roundDocs := roundDocs s @ [newRound (currentRound g)]\<rparr>)
           | Some existingRound \<Rightarrow>
               if status existingRound \<noteq> Voting
               then Some (s\<lparr>roundDocs :=
                              updateOne (\<lambda>x. roundNumber x = currentRound g)
                                (\<lambda>x. x\<lparr>status := Voting, votes := \<lparr>red = 0, black = 0\<rparr>,
                                       participants := []\<rparr>)
                                (roundDocs s)\<rparr>)
               else Some s))"

definition startRoundTimer :: "server \<Rightarrow> server" where
  "startRoundTimer s =
     s\<lparr>serverTimeLeft := of_int (ROUND_DURATION s) / 1000,
       serverTimerInterval := Some VotingCountdown\<rparr>"

definition endVotingPhase_v1 :: "rat \<Rightarrow> server \<Rightarrow> server" where
  "endVotingPhase_v1 r s =
     (case currentGameState s of
        None \<Rightarrow> s
      | Some g \<Rightarrow>
          (case find (\<lambda>x. roundNumber x = currentRound g \<and> status x = Voting) (roundDocs s) of
             None \<Rightarrow> s
           | Some currentRnd \<Rightarrow>
               s\<lparr>roundDocs :=
                    updateOne (\<lambda>x. roundNumber x = currentRound g \<and> status x = Voting)
                      (\<lambda>x. x\<lparr>winningColor := Some (drawColor r), status := Spinning\<rparr>)
                      (roundDocs s),
                 pendingTimeouts := pendingTimeouts s @ [SelectWinner]\<rparr>))"

text \<open>\<open>selectWinner\<close>. The log line \<open>winningColor.toUpperCase()\<close> after the two saves
  throws for a round without a winning colour, before the next round is scheduled.\<close>

definition selectWinner_v1 :: "rat \<Rightarrow> server \<Rightarrow> server" where
  "selectWinner_v1 r s =
     (case currentGameState s of
        None \<Rightarrow> s
      | Some g \<Rightarrow>
          (case find (\<lambda>x. roundNumber x = currentRound g \<and> status x = Spinning)
                  (roundDocs s) of
             None \<Rightarrow> s
           | Some currentRnd \<Rightarrow>
               (case pickWinner r (winningVotesOf currentRnd (voteDocs s)) of
                  PickThrows \<Rightarrow> s
                | Picked w \<Rightarrow>
                    (let saved =
                       saveGameState
                         (g\<lparr>lastWinner := w, currentRound := currentRound g + 1,
                            totalRoundsPlayed := totalRoundsPlayed g + 1\<rparr>)
                         (s\<lparr>roundDocs :=
                              updateOne
                                (\<lambda>x. roundNumber x = currentRound g \<and> status x = Spinning)
                                (\<lambda>x. x\<lparr>winner := w, status := Completed\<rparr>) (roundDocs s)\<rparr>)
                     in if winningColor currentRnd = None then saved
                        else saved\<lparr>pendingTimeouts :=
                                     pendingTimeouts saved @ [StartNextRound]\<rparr>))))"



definition loadGameState :: "server \<Rightarrow> server" where
  "loadGameState s =
     (case gameStateDoc s of
        Some g \<Rightarrow> s\<lparr>currentGameState := Some g\<rparr>
      | None \<Rightarrow> saveGameState newGameState s)"

definition initializeGameState_v1 :: "server \<Rightarrow> server" where
  "initializeGameState_v1 s =
     (case ensureCurrentRound_v1 (loadGameState s) of
        None \<Rightarrow> loadGameState s
      | Some s' \<Rightarrow> startRoundTimer s')"

subsection \<open>Round lifecycle, second variant\<close>

text \<open>\<open>ensureCurrentRound\<close> of the second variant looks for the current round in
  voting or spinning and swallows every exception: the TypeError of a missing game
  state, and the duplicate-key error of \<open>newRound.save()\<close> when a completed round holds
  the number already (\<open>roundNumber\<close> is a unique index).\<close>

definition ensureCurrentRound_v2 :: "server \<Rightarrow> server" where
  "ensureCurrentRound_v2 s =
     (case currentGameState s of
        None \<Rightarrow> s
      | Some g \<Rightarrow>
          (case find (\<lambda>x. roundNumber x = currentRound g \<and> status x \<in> {Voting, Spinning})
                  (roundDocs s) of
             Some existingRound \<Rightarrow> s
           | None \<Rightarrow>
               if find (\<lambda>x. roundNumber x = currentRound g) (roundDocs s) = None
               then s\<lparr>roundDocs := roundDocs s @ [newRound (currentRound g)]\<rparr>
               else s))"

definition startVerificationPhase :: "server \<Rightarrow> server" where
  "startVerificationPhase s =
     s\<lparr>currentPhase := PhaseVoting, phaseTimeLeft := 300,
       serverTimerInterval := Some VotingCountdown\<rparr>"

definition endVotingPhase_v2 :: "rat \<Rightarrow> server \<Rightarrow> server" where
  "endVotingPhase_v2 r s =
     (let s0 = s\<lparr>currentPhase := PhaseSpinning, phaseTimeLeft := 5\<rparr>
      in case currentGameState s0 of
           None \<Rightarrow> s0
         | Some g \<Rightarrow>
             (case find (\<lambda>x. roundNumber x = currentRound g \<and> status x = Voting)
                     (roundDocs s0) of
                None \<Rightarrow> s0
              | Some currentRnd \<Rightarrow>
                  s0\<lparr>roundDocs :=
                        updateOne (\<lambda>x. roundNumber x = currentRound g \<and> status x = Voting)
                          (\<lambda>x. x\<lparr>winningColor := Some (drawColor r), status := Spinning\<rparr>)
                          (roundDocs s0),
                     serverTimerInterval := Some SpinCountdown,
                     pendingTimeouts := pendingTimeouts s0 @ [PerformAutomaticSpin]\<rparr>))"

definition performAutomaticSpin :: "rat \<Rightarrow> server \<Rightarrow> server" where
  "performAutomaticSpin r s =
     (let s0 = s\<lparr>currentPhase := PhaseResults, phaseTimeLeft := 10\<rparr>
      in case currentGameState s0 of
           None \<Rightarrow> s0
         | Some g \<Rightarrow>
             (case find (\<lambda>x. roundNumber x = currentRound g \<and> status x = Spinning)
                     (roundDocs s0) of
                None \<Rightarrow> s0
              | Some currentRnd \<Rightarrow>
                  (case pickWinner r (winningVotesOf currentRnd (voteDocs s0)) of
                     PickThrows \<Rightarrow> s0
                   | Picked w \<Rightarrow>
                       (let saved =
                          saveGameState
                            (g\<lparr>lastWinner := w, currentRound := currentRound g + 1,
                               totalRoundsPlayed := totalRoundsPlayed g + 1\<rparr>)
                            (s0\<lparr>roundDocs :=
                                  updateOne
                                    (\<lambda>x. roundNumber x = currentRound g \<and> status x = Spinning)
                                    (\<lambda>x. x\<lparr>winner := w, status := Completed\<rparr>)
                                    (roundDocs s0)\<rparr>)
                        in if winningColor currentRnd = None then saved
                           else saved\<lparr>serverTimerInterval := Some ResultsCountdown,
                                      pendingTimeouts :=
                                        pendingTimeouts saved @ [StartNextRound]\<rparr>))))"




definition initializeGameState_v2 :: "server \<Rightarrow> server" where
  "initializeGameState_v2 s = startVerificationPhase (ensureCurrentRound_v2 (loadGameState s))"

subsection \<open>Requests and timer firings as events\<close>

text \<open>What can happen to a running server: the start-up call, a request, the interval
  referred to by \<open>serverTimerInterval\<close> firing, or a pending timeout firing. A firing
  carries the draw that \<open>Math.random()\<close> would return in it.\<close>

datatype event =
    Startup
  | VerifyWallet "string option" bool int
  | Vote vote_request
  | SetPrize "rat option"
  | MarkPaid int
  | IntervalFires rat
  | TimeoutFires timeout rat







subsection \<open>Tallies along a run\<close>




subsection \<open>Example states\<close>

text \<open>A freshly started server with three verified wallets and round 1 open.\<close>

definition freshServer :: server where
  "freshServer =
     \<lparr>ROUND_DURATION = 30000, MIN_TOKEN_BALANCE = 1000000,
      participantDocs =
        [\<lparr>participantAddress = ''walletX'', tokenBalance = 2000000, isVerified = True\<rparr>,
         \<lparr>participantAddress = ''walletY'', tokenBalance = 3000000, isVerified = True\<rparr>,
         \<lparr>participantAddress = ''walletW'', tokenBalance = 1000000, isVerified = True\<rparr>],
      voteDocs = [], roundDocs = [newRound 1],
      gameStateDoc = Some newGameState, currentGameState = Some newGameState,
      serverTimeLeft = 30, currentPhase = PhaseVoting, phaseTimeLeft = 300,
      serverTimerInterval = Some VotingCountdown, pendingTimeouts = []\<rparr>"

text \<open>Round 1 completed with \<open>walletX\<close> as winner of a prize of 5, before round 2 is
  created.\<close>

definition wonServer :: server where
  "wonServer =
     freshServer
       \<lparr>voteDocs := [\<lparr>walletAddress = ''walletX'', roundId = 1, color = Red\<rparr>],
        roundDocs :=
          [\<lparr>roundNumber = 1, status = Completed, votes = \<lparr>red = 1, black = 0\<rparr>,
            participants = [''walletX''], winningColor = Some Red,
            winner = Some ''walletX'', prizeAmount = 5\<rparr>],
        gameStateDoc := Some (newGameState\<lparr>currentRound := 2, totalRoundsPlayed := 1,
                                 lastWinner := Some ''walletX''\<rparr>),
        currentGameState := Some (newGameState\<lparr>currentRound := 2, totalRoundsPlayed := 1,
                                     lastWinner := Some ''walletX''\<rparr>),
        serverTimeLeft := 0, serverTimerInterval := None,
        pendingTimeouts := [StartNextRound]\<rparr>"

text \<open>Round 1 open, after \<open>walletX\<close> voted red.\<close>

definition votedServer :: server where
  "votedServer =
     freshServer
       \<lparr>voteDocs := [\<lparr>walletAddress = ''walletX'', roundId = 1, color = Red\<rparr>],
        roundDocs :=
          [\<lparr>roundNumber = 1, status = Voting, votes = \<lparr>red = 1, black = 0\<rparr>,
            participants = [''walletX''], winningColor = None,
            winner = None, prizeAmount = 0\<rparr>]\<rparr>"

text \<open>Round 1 spinning on red after that vote: the voting window is over.\<close>

definition spinningServer :: server where
  "spinningServer =
     freshServer
       \<lparr>voteDocs := [\<lparr>walletAddress = ''walletX'', roundId = 1, color = Red\<rparr>],
        roundDocs :=
          [\<lparr>roundNumber = 1, status = Spinning, votes = \<lparr>red = 1, black = 0\<rparr>,
            participants = [''walletX''], winningColor = Some Red,
            winner = None, prizeAmount = 5\<rparr>],
        serverTimeLeft := 0, currentPhase := PhaseSpinning, phaseTimeLeft := 5,
        serverTimerInterval := None, pendingTimeouts := [SelectWinner]\<rparr>"

text \<open>The same with black drawn: nobody voted for the winning colour.\<close>

definition lostServer :: server where
  "lostServer =
     spinningServer
       \<lparr>roundDocs :=
          [\<lparr>roundNumber = 1, status = Spinning, votes = \<lparr>red = 1, black = 0\<rparr>,
            participants = [''walletX''], winningColor = Some Black,
            winner = None, prizeAmount = 5\<rparr>]\<rparr>"

text \<open>Round 1 spinning on red with three votes, two of them red.\<close>

definition crowdServer :: server where
  "crowdServer =
     spinningServer
       \<lparr>voteDocs :=
          [\<lparr>walletAddress = ''walletX'', roundId = 1, color = Red\<rparr>,
           \<lparr>walletAddress = ''walletY'', roundId = 1, color = Black\<rparr>,
           \<lparr>walletAddress = ''walletW'', roundId = 1, color = Red\<rparr>],
        roundDocs :=
          [\<lparr>roundNumber = 1, status = Spinning, votes = \<lparr>red = 2, black = 1\<rparr>,
            participants = [''walletX'', ''walletY'', ''walletW''], winningColor = Some Red,
            winner = None, prizeAmount = 5\<rparr>]\<rparr>"

text \<open>A vote request with both fields present.\<close>

definition voteRequest :: "string \<Rightarrow> string \<Rightarrow> vote_request" where
  "voteRequest w c = \<lparr>reqWalletAddress = Some w, reqColor = Some c\<rparr>"

text \<open>A process that has just started on an empty database.\<close>

definition emptyServer :: server where
  "emptyServer =
     \<lparr>ROUND_DURATION = 30000, MIN_TOKEN_BALANCE = 1000000, participantDocs = [],
      voteDocs = [], roundDocs = [], gameStateDoc = None, currentGameState = None,
      serverTimeLeft = 600, currentPhase = PhaseVoting, phaseTimeLeft = 0,
      serverTimerInterval = None, pendingTimeouts = []\<rparr>"

text \<open>Round 1 open with one vote and part of the voting window used up.\<close>

definition midRoundServer :: server where
  "midRoundServer = votedServer\<lparr>serverTimeLeft := 12, phaseTimeLeft := 120\<rparr>"

text \<open>A new process on the database of \<open>crowdServer\<close>: the old process stopped
  while round 1 was spinning.\<close>

definition restartedServer :: server where
  "restartedServer =
     crowdServer\<lparr>currentGameState := None, serverTimeLeft := 600, currentPhase := PhaseVoting,
       phaseTimeLeft := 0, serverTimerInterval := None, pendingTimeouts := []\<rparr>"

text \<open>Round 1 with one vote and one second left, and a full round trip from there:
  a second vote, the voting window ends, a late vote, the winner is selected, the next
  round starts, a vote in the new round.\<close>

definition lastSecondServer :: server where
  "lastSecondServer = votedServer\<lparr>serverTimeLeft := 1, phaseTimeLeft := 1\<rparr>"

definition roundTrip_v1 :: "event list" where
  "roundTrip_v1 =
     [Vote (voteRequest ''walletY'' ''black''), IntervalFires (1 / 4),
      Vote (voteRequest ''walletW'' ''red''), TimeoutFires SelectWinner (1 / 4),
      TimeoutFires StartNextRound 0, Vote (voteRequest ''walletW'' ''red'')]"

definition roundTrip_v2 :: "event list" where
  "roundTrip_v2 =
     [Vote (voteRequest ''walletY'' ''black''), IntervalFires (1 / 4),
      Vote (voteRequest ''walletW'' ''red''), TimeoutFires PerformAutomaticSpin (1 / 4),
      TimeoutFires StartNextRound 0, Vote (voteRequest ''walletW'' ''red'')]"

text \<open>The definitions to unfold when an example is evaluated.\<close>

lemmas example_defs = voteRequest_def validVoteData_def falsy_def parseColor_def
  votedServer_def spinningServer_def lostServer_def crowdServer_def wonServer_def
  freshServer_def emptyServer_def midRoundServer_def restartedServer_def
  lastSecondServer_def roundTrip_v1_def roundTrip_v2_def newGameState_def newRound_def


lemmas select_defs = selectWinner_v1_def performAutomaticSpin_def pickWinner_def
  winningVotesOf_def saveGameState_def Let_def


section \<open>Properties\<close>

subsection \<open>Marking a prize paid\<close>







subsection \<open>Casting a vote\<close>

lemma castVote_v1_invalid:
  "validVoteData req = None \<Longrightarrow> castVote_v1 req s = (Inl InvalidVoteData, s)"
  by (simp add: castVote_v1_def)

lemma castVote_v1_unverified:
  "validVoteData req = Some (w, c) \<Longrightarrow>
   find (\<lambda>p. participantAddress p = w \<and> isVerified p) (participantDocs s) = None \<Longrightarrow>
   castVote_v1 req s = (Inl WalletNotVerified, s)"
  by (simp add: castVote_v1_def)

lemma castVote_v1_duplicate:
  "validVoteData req = Some (w, c) \<Longrightarrow>
   find (\<lambda>p. participantAddress p = w \<and> isVerified p) (participantDocs s) = Some p \<Longrightarrow>
   currentGameState s = Some g \<Longrightarrow>
   find (\<lambda>v. walletAddress v = w \<and> roundId v = currentRound g) (voteDocs s) = Some ev \<Longrightarrow>
   castVote_v1 req s = (Inl (AlreadyVoted (color ev)), s)"
  by (simp add: castVote_v1_def)

lemma castVote_v1_inactive:
  "validVoteData req = Some (w, c) \<Longrightarrow>
   find (\<lambda>p. participantAddress p = w \<and> isVerified p) (participantDocs s) = Some p \<Longrightarrow>
   currentGameState s = Some g \<Longrightarrow>
   find (\<lambda>v. walletAddress v = w \<and> roundId v = currentRound g) (voteDocs s) = None \<Longrightarrow>
   find (\<lambda>x. roundNumber x = currentRound g \<and> status x = Voting) (roundDocs s) = None \<Longrightarrow>
   castVote_v1 req s = (Inl VotingNotActive, s)"
  by (simp add: castVote_v1_def)

lemma castVote_v1_accepted:
  "validVoteData req = Some (w, c) \<Longrightarrow>
   find (\<lambda>p. participantAddress p = w \<and> isVerified p) (participantDocs s) = Some p \<Longrightarrow>
   currentGameState s = Some g \<Longrightarrow>
   find (\<lambda>v. walletAddress v = w \<and> roundId v = currentRound g) (voteDocs s) = None \<Longrightarrow>
   find (\<lambda>x. roundNumber x = currentRound g \<and> status x = Voting) (roundDocs s) = Some rnd \<Longrightarrow>
   castVote_v1 req s =
     (Inr \<lparr>vdColor = c, vdRoundNumber = currentRound g, vdVotes = votes (recordVote w c rnd),
           vdTotalVoters = length (participants (recordVote w c rnd))\<rparr>,
      s\<lparr>voteDocs := voteDocs s @ [\<lparr>walletAddress = w, roundId = currentRound g, color = c\<rparr>],
        roundDocs := updateOne (\<lambda>x. roundNumber x = currentRound g \<and> status x = Voting)
                       (recordVote w c) (roundDocs s)\<rparr>)"
  by (simp add: castVote_v1_def)






lemma find_append:
  "find P (xs @ ys) = (case find P xs of None \<Rightarrow> find P ys | Some x \<Rightarrow> Some x)"
  by (induction xs) auto

text \<open>
  C2 (as amended). The vote handler rejects with the first failing check of this list,
  and a rejection leaves the state as it was: the request names a wallet and one of the
  two colours; the wallet is a verified participant; the wallet has no vote in the current
  round (the rejection carries the colour of the vote found); the current round's
  document has status voting. The second variant puts one check in front, that the
  in-memory phase is voting, and then runs the same list. So the first variant tests
  whether the round is open last, after the colour and the duplicate test.
\<close>

theorem castVote_checks_in_source_order:
  "(validVoteData req = None \<longrightarrow> castVote_v1 req s = (Inl InvalidVoteData, s)) \<and>
   (\<forall>w c. validVoteData req = Some (w, c) \<longrightarrow>
      (find (\<lambda>p. participantAddress p = w \<and> isVerified p) (participantDocs s) = None \<longrightarrow>
         castVote_v1 req s = (Inl WalletNotVerified, s)) \<and>
      (\<forall>p g. find (\<lambda>p. participantAddress p = w \<and> isVerified p) (participantDocs s) = Some p \<and>
             currentGameState s = Some g \<longrightarrow>
         (\<forall>ev. find (\<lambda>v. walletAddress v = w \<and> roundId v = currentRound g) (voteDocs s) = Some ev
            \<longrightarrow> castVote_v1 req s = (Inl (AlreadyVoted (color ev)), s)) \<and>
         (find (\<lambda>v. walletAddress v = w \<and> roundId v = currentRound g) (voteDocs s) = None \<longrightarrow>
            (find (\<lambda>x. roundNumber x = currentRound g \<and> status x = Voting) (roundDocs s) = None
               \<longrightarrow> castVote_v1 req s = (Inl VotingNotActive, s)) \<and>
            (find (\<lambda>x. roundNumber x = currentRound g \<and> status x = Voting) (roundDocs s) \<noteq> None
               \<longrightarrow> \<not> isl (fst (castVote_v1 req s)))))) \<and>
   (currentPhase s \<noteq> PhaseVoting \<longrightarrow>
      castVote_v2 req s = (Inl (VotingNotActivePhase (currentPhase s) (phaseTimeLeft s)), s)) \<and>
   (currentPhase s = PhaseVoting \<longrightarrow> castVote_v2 req s = castVote_v1 req s)"
proof -
  have v2: "(currentPhase s \<noteq> PhaseVoting \<longrightarrow>
      castVote_v2 req s = (Inl (VotingNotActivePhase (currentPhase s) (phaseTimeLeft s)), s)) \<and>
   (currentPhase s = PhaseVoting \<longrightarrow> castVote_v2 req s = castVote_v1 req s)"
    by (simp add: castVote_v2_def)
  have accepted: "\<not> isl (fst (castVote_v1 req s))"
    if "validVoteData req = Some (w, c)"
      "find (\<lambda>p. participantAddress p = w \<and> isVerified p) (participantDocs s) = Some p"
      "currentGameState s = Some g"
      "find (\<lambda>v. walletAddress v = w \<and> roundId v = currentRound g) (voteDocs s) = None"
      "find (\<lambda>x. roundNumber x = currentRound g \<and> status x = Voting) (roundDocs s) \<noteq> None"
    for w c p g
  proof -
    from that(5) obtain rnd where
      "find (\<lambda>x. roundNumber x = currentRound g \<and> status x = Voting) (roundDocs s) = Some rnd"
      by blast
    from castVote_v1_accepted[OF that(1-4) this] show ?thesis by simp
  qed
  show ?thesis
  proof (intro conjI allI impI)
    fix w c p g
    assume valid: "validVoteData req = Some (w, c)"
      and more: "find (\<lambda>p. participantAddress p = w \<and> isVerified p) (participantDocs s) = Some p \<and>
             currentGameState s = Some g"
      and fresh: "find (\<lambda>v. walletAddress v = w \<and> roundId v = currentRound g) (voteDocs s) = None"
      and "open": "find (\<lambda>x. roundNumber x = currentRound g \<and> status x = Voting) (roundDocs s) \<noteq> None"
    then show "\<not> isl (fst (castVote_v1 req s))"
      using accepted[of w c p g] by simp
  qed (use v2 in \<open>simp_all add: castVote_v1_invalid castVote_v1_unverified
         castVote_v1_duplicate castVote_v1_inactive\<close>)
qed



text \<open>
  C2 as stated fails in the first variant. With round 1 spinning, a request with a
  colour that is neither red nor black is rejected for its colour and a repeated vote
  is rejected as a duplicate; only a fresh, well-formed request is told that voting is
  not active.
\<close>

theorem castVote_v1_round_status_checked_last:
  "map status (roundDocs spinningServer) = [Spinning] \<and>
   castVote_v1 (voteRequest ''walletX'' ''green'') spinningServer =
     (Inl InvalidVoteData, spinningServer) \<and>
   castVote_v1 (voteRequest ''walletX'' ''black'') spinningServer =
     (Inl (AlreadyVoted Red), spinningServer) \<and>
   castVote_v1 (voteRequest ''walletY'' ''black'') spinningServer =
     (Inl VotingNotActive, spinningServer)"
  by (simp add: castVote_v1_def example_defs)

theorem castVote_checks_in_source_order_witness:
  "castVote_v1 (voteRequest ''walletX'' ''green'') votedServer = (Inl InvalidVoteData, votedServer) \<and>
   castVote_v1 (voteRequest ''walletZ'' ''red'') votedServer =
     (Inl WalletNotVerified, votedServer) \<and>
   castVote_v1 (voteRequest ''walletX'' ''black'') votedServer =
     (Inl (AlreadyVoted Red), votedServer) \<and>
   castVote_v1 (voteRequest ''walletY'' ''black'') spinningServer =
     (Inl VotingNotActive, spinningServer) \<and>
   \<not> isl (fst (castVote_v1 (voteRequest ''walletY'' ''black'') votedServer)) \<and>
   castVote_v2 (voteRequest ''walletX'' ''green'') spinningServer =
     (Inl (VotingNotActivePhase PhaseSpinning 5), spinningServer) \<and>
   castVote_v2 (voteRequest ''walletX'' ''black'') votedServer =
     (Inl (AlreadyVoted Red), votedServer)"
proof -
  have 1: "castVote_v1 (voteRequest ''walletX'' ''green'') votedServer =
      (Inl InvalidVoteData, votedServer)"
    using castVote_checks_in_source_order[of "voteRequest ''walletX'' ''green''" votedServer]
    by (simp add: example_defs)
  have 2: "castVote_v1 (voteRequest ''walletZ'' ''red'') votedServer =
      (Inl WalletNotVerified, votedServer)"
    using castVote_checks_in_source_order[of "voteRequest ''walletZ'' ''red''" votedServer]
    by (simp add: example_defs)
  have 3: "castVote_v1 (voteRequest ''walletX'' ''black'') votedServer =
      (Inl (AlreadyVoted Red), votedServer)"
    using castVote_checks_in_source_order[of "voteRequest ''walletX'' ''black''" votedServer]
    by (simp add: example_defs)
  have 4: "castVote_v1 (voteRequest ''walletY'' ''black'') spinningServer =
      (Inl VotingNotActive, spinningServer)"
    using castVote_checks_in_source_order[of "voteRequest ''walletY'' ''black''" spinningServer]
    by (simp add: example_defs)
  have 5: "\<not> isl (fst (castVote_v1 (voteRequest ''walletY'' ''black'') votedServer))"
    using castVote_checks_in_source_order[of "voteRequest ''walletY'' ''black''" votedServer]
    by (simp add: example_defs)
  have 6: "castVote_v2 (voteRequest ''walletX'' ''green'') spinningServer =
      (Inl (VotingNotActivePhase PhaseSpinning 5), spinningServer)"
    using castVote_checks_in_source_order[of "voteRequest ''walletX'' ''green''" spinningServer]
    by (simp add: example_defs)
  have 7: "castVote_v2 (voteRequest ''walletX'' ''black'') votedServer =
      (Inl (AlreadyVoted Red), votedServer)"
    using castVote_checks_in_source_order[of "voteRequest ''walletX'' ''black''" votedServer] 3
    by (simp add: example_defs)
  from 1 2 3 4 5 6 7 show ?thesis by blast
qed


subsection \<open>The countdown\<close>


















lemma ensureCurrentRound_v2_timers:
  "phaseTimeLeft (ensureCurrentRound_v2 s) = phaseTimeLeft s \<and>
   currentPhase (ensureCurrentRound_v2 s) = currentPhase s"
  by (simp add: ensureCurrentRound_v2_def split: option.splits)









subsection \<open>Completing a round\<close>

lemma updateOne_at:
  "find P xs = Some x \<Longrightarrow> \<exists>i<length xs. xs ! i = x \<and> updateOne P f xs = xs[i := f x]"
proof (induction xs)
  case Nil
  then show ?case by simp
next
  case (Cons y ys)
  show ?case
  proof (cases "P y")
    case True
    with Cons.prems have "x = y" by simp
    with True show ?thesis by (intro exI[of _ 0]) simp
  next
    case False
    with Cons.prems have "find P ys = Some x" by simp
    from Cons.IH[OF this] obtain i where "i < length ys" "ys ! i = x"
      "updateOne P f ys = ys[i := f x]" by blast
    with False show ?thesis by (intro exI[of _ "Suc i"]) simp
  qed
qed

lemma find_Some_holds: "find P xs = Some x \<Longrightarrow> P x \<and> x \<in> set xs"
  by (induction xs) (auto split: if_splits)

lemma pickWinner_in_range:
  assumes "0 \<le> r" and "r < 1"
  shows "pickWinner r ws =
           Picked (if ws = [] then None
                   else Some (walletAddress (ws ! nat \<lfloor>r * of_nat (length ws)\<rfloor>))) \<and>
         (ws \<noteq> [] \<longrightarrow> nat \<lfloor>r * of_nat (length ws)\<rfloor> < length ws)"
proof (cases "ws = []")
  case True
  then show ?thesis by (simp add: pickWinner_def)
next
  case False
  then have pos: "0 < length ws" by simp
  have lo: "0 \<le> \<lfloor>r * of_nat (length ws)\<rfloor>"
    using assms(1) by (simp add: zero_le_floor)
  have "r * of_nat (length ws) < of_nat (length ws)"
    using assms(2) pos by simp
  then have hi: "\<lfloor>r * of_nat (length ws)\<rfloor> < int (length ws)"
    by (simp add: floor_less_iff)
  from lo hi have "nat \<lfloor>r * of_nat (length ws)\<rfloor> < length ws"
    by linarith
  with lo hi False show ?thesis
    by (simp add: pickWinner_def Let_def)
qed

lemma selectWinner_v1_effect:
  assumes "currentGameState s = Some g"
    and "find (\<lambda>x. roundNumber x = currentRound g \<and> status x = Spinning) (roundDocs s) = Some cr"
    and "pickWinner r (winningVotesOf cr (voteDocs s)) = Picked w"
  shows "selectWinner_v1 r s =
     s\<lparr>roundDocs := updateOne (\<lambda>x. roundNumber x = currentRound g \<and> status x = Spinning)
                      (\<lambda>x. x\<lparr>winner := w, status := Completed\<rparr>) (roundDocs s),
       currentGameState := Some (g\<lparr>lastWinner := w, currentRound := currentRound g + 1,
                                   totalRoundsPlayed := totalRoundsPlayed g + 1\<rparr>),
       gameStateDoc := Some (g\<lparr>lastWinner := w, currentRound := currentRound g + 1,
                               totalRoundsPlayed := totalRoundsPlayed g + 1\<rparr>),
       pendingTimeouts := (if winningColor cr = None then pendingTimeouts s
                           else pendingTimeouts s @ [StartNextRound])\<rparr>"
  using assms by (simp add: selectWinner_v1_def saveGameState_def Let_def)

lemma performAutomaticSpin_effect:
  assumes "currentGameState s = Some g"
    and "find (\<lambda>x. roundNumber x = currentRound g \<and> status x = Spinning) (roundDocs s) = Some cr"
    and "pickWinner r (winningVotesOf cr (voteDocs s)) = Picked w"
  shows "performAutomaticSpin r s =
     s\<lparr>currentPhase := PhaseResults, phaseTimeLeft := 10,
       roundDocs := updateOne (\<lambda>x. roundNumber x = currentRound g \<and> status x = Spinning)
                      (\<lambda>x. x\<lparr>winner := w, status := Completed\<rparr>) (roundDocs s),
       currentGameState := Some (g\<lparr>lastWinner := w, currentRound := currentRound g + 1,
                                   totalRoundsPlayed := totalRoundsPlayed g + 1\<rparr>),
       gameStateDoc := Some (g\<lparr>lastWinner := w, currentRound := currentRound g + 1,
                               totalRoundsPlayed := totalRoundsPlayed g + 1\<rparr>),
       serverTimerInterval := (if winningColor cr = None then serverTimerInterval s
                               else Some ResultsCountdown),
       pendingTimeouts := (if winningColor cr = None then pendingTimeouts s
                           else pendingTimeouts s @ [StartNextRound])\<rparr>"
  using assms by (simp add: performAutomaticSpin_def saveGameState_def Let_def)


lemma winningVotesOf_set:
  "set (winningVotesOf cr vs) =
     {v \<in> set vs. roundId v = roundNumber cr \<and> Some (color v) = winningColor cr}"
  by (auto simp: winningVotesOf_def)

text \<open>
  C1 (as amended). When the winner of the spinning current round is selected with a draw
  \<open>0 \<le> r < 1\<close>, the votes considered are exactly the stored votes of that round whose
  colour is the round's winning colour. If there is none, the stored winner is the absent
  value \<open>null\<close> (not a string "none"); otherwise it is the wallet of the vote at index
  \<open>\<lfloor>r * n\<rfloor>\<close> among these \<open>n\<close> votes, so the wallet of a vote for the winning colour.
  Both variants store the same round document.
\<close>

theorem winner_drawn_from_votes_for_winning_colour:
  assumes loaded: "currentGameState s = Some g"
    and spinning: "find (\<lambda>x. roundNumber x = currentRound g \<and> status x = Spinning)
                     (roundDocs s) = Some cr"
    and draw: "0 \<le> r \<and> r < 1"
  shows "\<exists>i<length (roundDocs s). roundDocs s ! i = cr \<and>
     (let W = winningVotesOf cr (voteDocs s);
          w = (if W = [] then None
               else Some (walletAddress (W ! nat \<lfloor>r * of_nat (length W)\<rfloor>)))
      in set W = {v \<in> set (voteDocs s).
                    roundId v = roundNumber cr \<and> Some (color v) = winningColor cr} \<and>
         roundDocs (selectWinner_v1 r s) =
           (roundDocs s)[i := cr\<lparr>winner := w, status := Completed\<rparr>] \<and>
         roundDocs (performAutomaticSpin r s) =
           (roundDocs s)[i := cr\<lparr>winner := w, status := Completed\<rparr>] \<and>
         (W = [] \<longrightarrow> w = None) \<and>
         (W \<noteq> [] \<longrightarrow> (\<exists>v\<in>set W. w = Some (walletAddress v))))"
proof -
  let ?W = "winningVotesOf cr (voteDocs s)"
  let ?w = "if ?W = [] then None
            else Some (walletAddress (?W ! nat \<lfloor>r * of_nat (length ?W)\<rfloor>))"
  let ?P = "\<lambda>x. roundNumber x = currentRound g \<and> status x = Spinning"
  let ?f = "\<lambda>x. x\<lparr>winner := ?w, status := Completed\<rparr>"
  from pickWinner_in_range[of r ?W] draw
  have pick: "pickWinner r ?W = Picked ?w"
    and idx: "?W \<noteq> [] \<longrightarrow> nat \<lfloor>r * of_nat (length ?W)\<rfloor> < length ?W"
    by simp_all
  from updateOne_at[OF spinning, of ?f] obtain i where
    i: "i < length (roundDocs s)" "roundDocs s ! i = cr"
      "updateOne ?P ?f (roundDocs s) = (roundDocs s)[i := ?f cr]"
    by blast
  have v1: "roundDocs (selectWinner_v1 r s) = (roundDocs s)[i := ?f cr]"
    using selectWinner_v1_effect[OF loaded spinning pick] i(3) by simp
  have v2: "roundDocs (performAutomaticSpin r s) = (roundDocs s)[i := ?f cr]"
    using performAutomaticSpin_effect[OF loaded spinning pick] i(3) by simp
  have mem: "?W \<noteq> [] \<longrightarrow> (\<exists>v\<in>set ?W. ?w = Some (walletAddress v))"
    using idx by (auto intro: nth_mem)
  show ?thesis
    using i(1,2) v1 v2 mem winningVotesOf_set[of cr "voteDocs s"]
    by (intro exI[of _ i]) (simp add: Let_def)
qed

text \<open>
  C1 as stated fails where it names the value for "no winner": with black drawn and
  only a red vote stored, the winner written to the round is \<open>null\<close>, not the string.
\<close>

theorem no_winner_is_null_not_the_string_none:
  "map winner (roundDocs (selectWinner_v1 (1 / 4) lostServer)) = [None] \<and>
   map winner (roundDocs (selectWinner_v1 (1 / 4) lostServer)) \<noteq> [Some ''none''] \<and>
   map winner (roundDocs (performAutomaticSpin (1 / 4) lostServer)) = [None] \<and>
   map winner (roundDocs (performAutomaticSpin (1 / 4) lostServer)) \<noteq> [Some ''none'']"
  by (simp add: select_defs example_defs)

theorem winner_drawn_from_votes_for_winning_colour_witness:
  "roundDocs (selectWinner_v1 (3 / 4) crowdServer) =
     [\<lparr>roundNumber = 1, status = Completed, votes = \<lparr>red = 2, black = 1\<rparr>,
       participants = [''walletX'', ''walletY'', ''walletW''], winningColor = Some Red,
       winner = Some ''walletW'', prizeAmount = 5\<rparr>] \<and>
   roundDocs (performAutomaticSpin (3 / 4) crowdServer) =
     roundDocs (selectWinner_v1 (3 / 4) crowdServer)"
proof -
  let ?cr = "\<lparr>roundNumber = 1, status = Spinning, votes = \<lparr>red = 2, black = 1\<rparr>,
       participants = [''walletX'', ''walletY'', ''walletW''], winningColor = Some Red,
       winner = None, prizeAmount = 5\<rparr>"
  have loaded: "currentGameState crowdServer = Some newGameState"
    by (simp add: example_defs)
  have spinning: "find (\<lambda>x. roundNumber x = currentRound newGameState \<and> status x = Spinning)
      (roundDocs crowdServer) = Some ?cr"
    by (simp add: example_defs)
  have draw: "(0::rat) \<le> 3 / 4 \<and> (3 / 4 :: rat) < 1" by simp
  have W: "winningVotesOf ?cr (voteDocs crowdServer) =
      [\<lparr>walletAddress = ''walletX'', roundId = 1, color = Red\<rparr>,
       \<lparr>walletAddress = ''walletW'', roundId = 1, color = Red\<rparr>]"
    by (simp add: winningVotesOf_def example_defs)
  have len: "length (roundDocs crowdServer) = 1" and at0: "roundDocs crowdServer = [?cr]"
    by (simp_all add: example_defs)
  have "\<lfloor>(3 / 2 :: rat)\<rfloor> = 1"
    by (rule floor_unique) simp_all
  then have fl: "nat \<lfloor>(3 / 2 :: rat)\<rfloor> = 1"
    by simp
  from winner_drawn_from_votes_for_winning_colour[OF loaded spinning draw]
  show ?thesis
    by (simp add: Let_def W len at0 fl)
qed








subsection \<open>Choosing the winning colour\<close>

lemma endVotingPhase_v1_effect:
  assumes "currentGameState s = Some g"
    and "find (\<lambda>x. roundNumber x = currentRound g \<and> status x = Voting) (roundDocs s) = Some cr"
  shows "endVotingPhase_v1 r s =
     s\<lparr>roundDocs := updateOne (\<lambda>x. roundNumber x = currentRound g \<and> status x = Voting)
                      (\<lambda>x. x\<lparr>winningColor := Some (drawColor r), status := Spinning\<rparr>)
                      (roundDocs s),
       pendingTimeouts := pendingTimeouts s @ [SelectWinner]\<rparr>"
  using assms by (simp add: endVotingPhase_v1_def)

lemma endVotingPhase_v2_effect:
  assumes "currentGameState s = Some g"
    and "find (\<lambda>x. roundNumber x = currentRound g \<and> status x = Voting) (roundDocs s) = Some cr"
  shows "endVotingPhase_v2 r s =
     s\<lparr>currentPhase := PhaseSpinning, phaseTimeLeft := 5,
       roundDocs := updateOne (\<lambda>x. roundNumber x = currentRound g \<and> status x = Voting)
                      (\<lambda>x. x\<lparr>winningColor := Some (drawColor r), status := Spinning\<rparr>)
                      (roundDocs s),
       serverTimerInterval := Some SpinCountdown,
       pendingTimeouts := pendingTimeouts s @ [PerformAutomaticSpin]\<rparr>"
  using assms by (simp add: endVotingPhase_v2_def Let_def)

lemma endVotingPhase_stores_draw:
  assumes "currentGameState s = Some g"
    and "find (\<lambda>x. roundNumber x = currentRound g \<and> status x = Voting) (roundDocs s) = Some cr"
  shows "\<exists>i<length (roundDocs s). roundDocs s ! i = cr \<and>
           roundDocs (endVotingPhase_v1 r s) =
             (roundDocs s)[i := cr\<lparr>winningColor := Some (drawColor r), status := Spinning\<rparr>] \<and>
           roundDocs (endVotingPhase_v2 r s) =
             (roundDocs s)[i := cr\<lparr>winningColor := Some (drawColor r), status := Spinning\<rparr>]"
proof -
  from updateOne_at[OF assms(2),
      of "\<lambda>x. x\<lparr>winningColor := Some (drawColor r), status := Spinning\<rparr>"]
  obtain i where "i < length (roundDocs s)" "roundDocs s ! i = cr"
    "updateOne (\<lambda>x. roundNumber x = currentRound g \<and> status x = Voting)
       (\<lambda>x. x\<lparr>winningColor := Some (drawColor r), status := Spinning\<rparr>) (roundDocs s) =
     (roundDocs s)[i := cr\<lparr>winningColor := Some (drawColor r), status := Spinning\<rparr>]"
    by blast
  then show ?thesis
    using endVotingPhase_v1_effect[OF assms] endVotingPhase_v2_effect[OF assms]
    by (intro exI[of _ i]) simp
qed

text \<open>
  C8. The winning colour is red exactly when the draw is below one half, so the draws
  in \<open>[0, 1/2)\<close> give red and the shift by one half maps them onto the draws that give
  black: two sets of equal size (that \<open>Math.random()\<close> is uniform is the runtime's
  contract). When the voting phase of the current round ends, the round is stored with
  that colour whatever its tally: for any two servers \<open>s\<close> and \<open>t\<close> with an open
  current round, the same draw stores the same winning colour in both.
\<close>

theorem winning_colour_fair_threshold_independent_of_tally:
  "drawColor r = (if r < 1 / 2 then Red else Black) \<and>
   (0 \<le> r \<and> r < 1 / 2 \<longrightarrow> drawColor r = Red \<and> drawColor (r + 1 / 2) = Black) \<and>
   (\<forall>g cr. currentGameState s = Some g \<and>
       find (\<lambda>x. roundNumber x = currentRound g \<and> status x = Voting) (roundDocs s) = Some cr \<longrightarrow>
       (\<exists>i<length (roundDocs s). roundDocs s ! i = cr \<and>
          roundDocs (endVotingPhase_v1 r s) =
            (roundDocs s)[i := cr\<lparr>winningColor := Some (drawColor r), status := Spinning\<rparr>] \<and>
          roundDocs (endVotingPhase_v2 r s) =
            (roundDocs s)[i := cr\<lparr>winningColor := Some (drawColor r), status := Spinning\<rparr>] \<and>
          (\<forall>h ct. currentGameState t = Some h \<and>
              find (\<lambda>x. roundNumber x = currentRound h \<and> status x = Voting) (roundDocs t) =
                Some ct \<longrightarrow>
              (\<exists>j<length (roundDocs t). roundDocs t ! j = ct \<and>
                 winningColor (roundDocs (endVotingPhase_v1 r t) ! j) =
                   winningColor (roundDocs (endVotingPhase_v1 r s) ! i) \<and>
                 winningColor (roundDocs (endVotingPhase_v2 r t) ! j) =
                   winningColor (roundDocs (endVotingPhase_v2 r s) ! i)))))"
proof (intro conjI allI impI)
  fix g cr
  assume a: "currentGameState s = Some g \<and>
       find (\<lambda>x. roundNumber x = currentRound g \<and> status x = Voting) (roundDocs s) = Some cr"
  from endVotingPhase_stores_draw[of s g cr r] a obtain i where
    i: "i < length (roundDocs s)" "roundDocs s ! i = cr"
      "roundDocs (endVotingPhase_v1 r s) =
         (roundDocs s)[i := cr\<lparr>winningColor := Some (drawColor r), status := Spinning\<rparr>]"
      "roundDocs (endVotingPhase_v2 r s) =
         (roundDocs s)[i := cr\<lparr>winningColor := Some (drawColor r), status := Spinning\<rparr>]"
    by blast
  have other: "\<exists>j<length (roundDocs t). roundDocs t ! j = ct \<and>
                 winningColor (roundDocs (endVotingPhase_v1 r t) ! j) =
                   winningColor (roundDocs (endVotingPhase_v1 r s) ! i) \<and>
                 winningColor (roundDocs (endVotingPhase_v2 r t) ! j) =
                   winningColor (roundDocs (endVotingPhase_v2 r s) ! i)"
    if b: "currentGameState t = Some h \<and>
              find (\<lambda>x. roundNumber x = currentRound h \<and> status x = Voting) (roundDocs t) =
                Some ct" for h ct
  proof -
    from endVotingPhase_stores_draw[of t h ct r] b obtain j where
      "j < length (roundDocs t)" "roundDocs t ! j = ct"
      "roundDocs (endVotingPhase_v1 r t) =
         (roundDocs t)[j := ct\<lparr>winningColor := Some (drawColor r), status := Spinning\<rparr>]"
      "roundDocs (endVotingPhase_v2 r t) =
         (roundDocs t)[j := ct\<lparr>winningColor := Some (drawColor r), status := Spinning\<rparr>]"
      by blast
    with i show ?thesis by (intro exI[of _ j]) simp
  qed
  show "\<exists>i<length (roundDocs s). roundDocs s ! i = cr \<and>
          roundDocs (endVotingPhase_v1 r s) =
            (roundDocs s)[i := cr\<lparr>winningColor := Some (drawColor r), status := Spinning\<rparr>] \<and>
          roundDocs (endVotingPhase_v2 r s) =
            (roundDocs s)[i := cr\<lparr>winningColor := Some (drawColor r), status := Spinning\<rparr>] \<and>
          (\<forall>h ct. currentGameState t = Some h \<and>
              find (\<lambda>x. roundNumber x = currentRound h \<and> status x = Voting) (roundDocs t) =
                Some ct \<longrightarrow>
              (\<exists>j<length (roundDocs t). roundDocs t ! j = ct \<and>
                 winningColor (roundDocs (endVotingPhase_v1 r t) ! j) =
                   winningColor (roundDocs (endVotingPhase_v1 r s) ! i) \<and>
                 winningColor (roundDocs (endVotingPhase_v2 r t) ! j) =
                   winningColor (roundDocs (endVotingPhase_v2 r s) ! i)))"
  proof (rule exI[of _ i], intro conjI allI impI)
    fix h ct
    assume "currentGameState t = Some h \<and>
              find (\<lambda>x. roundNumber x = currentRound h \<and> status x = Voting) (roundDocs t) =
                Some ct"
    then show "\<exists>j<length (roundDocs t). roundDocs t ! j = ct \<and>
                 winningColor (roundDocs (endVotingPhase_v1 r t) ! j) =
                   winningColor (roundDocs (endVotingPhase_v1 r s) ! i) \<and>
                 winningColor (roundDocs (endVotingPhase_v2 r t) ! j) =
                   winningColor (roundDocs (endVotingPhase_v2 r s) ! i)"
      by (rule other)
  qed (fact i)+
qed (simp_all add: drawColor_def)

theorem winning_colour_fair_threshold_independent_of_tally_witness:
  "drawColor (1 / 4) = Red \<and> drawColor (3 / 4) = Black \<and>
   map winningColor (roundDocs (endVotingPhase_v1 (1 / 4) freshServer)) = [Some Red] \<and>
   map votes (roundDocs (endVotingPhase_v1 (1 / 4) freshServer)) = [\<lparr>red = 0, black = 0\<rparr>] \<and>
   map winningColor (roundDocs (endVotingPhase_v1 (1 / 4) votedServer)) = [Some Red] \<and>
   map votes (roundDocs (endVotingPhase_v1 (1 / 4) votedServer)) = [\<lparr>red = 1, black = 0\<rparr>] \<and>
   map winningColor (roundDocs (endVotingPhase_v2 (1 / 4) votedServer)) = [Some Red]"
proof -
  have l1: "currentGameState freshServer = Some newGameState"
    and l2: "currentGameState votedServer = Some newGameState"
    by (simp_all add: example_defs)
  have f1: "find (\<lambda>x. roundNumber x = currentRound newGameState \<and> status x = Voting)
      (roundDocs freshServer) = Some (newRound 1)"
    and d1: "roundDocs freshServer = [newRound 1]"
    by (simp_all add: example_defs)
  have f2: "find (\<lambda>x. roundNumber x = currentRound newGameState \<and> status x = Voting)
      (roundDocs votedServer) =
      Some \<lparr>roundNumber = 1, status = Voting, votes = \<lparr>red = 1, black = 0\<rparr>,
            participants = [''walletX''], winningColor = None,
            winner = None, prizeAmount = 0\<rparr>"
    and d2: "roundDocs votedServer =
      [\<lparr>roundNumber = 1, status = Voting, votes = \<lparr>red = 1, black = 0\<rparr>,
            participants = [''walletX''], winningColor = None,
            winner = None, prizeAmount = 0\<rparr>]"
    by (simp_all add: example_defs)
  have q: "(0::rat) \<le> 1 / 4 \<and> (1 / 4 :: rat) < 1 / 2" "(1 / 4 :: rat) + 1 / 2 = 3 / 4"
    by simp_all
  note fair = winning_colour_fair_threshold_independent_of_tally
  have c1: "drawColor (1 / 4) = Red \<and> drawColor (3 / 4) = Black"
    using fair[of "1 / 4" freshServer votedServer, THEN conjunct2, THEN conjunct1] q by simp
  from fair[of "1 / 4" freshServer votedServer, THEN conjunct2, THEN conjunct2, rule_format,
      OF conjI[OF l1 f1]]
  obtain i where i: "i < length (roundDocs freshServer)"
    "roundDocs (endVotingPhase_v1 (1 / 4) freshServer) =
       (roundDocs freshServer)[i := (newRound 1)\<lparr>winningColor := Some (drawColor (1 / 4)),
                                  status := Spinning\<rparr>]"
    by blast
  then have "i = 0" by (simp add: d1)
  with i(2) c1 have c2:
    "map winningColor (roundDocs (endVotingPhase_v1 (1 / 4) freshServer)) = [Some Red] \<and>
     map votes (roundDocs (endVotingPhase_v1 (1 / 4) freshServer)) = [\<lparr>red = 0, black = 0\<rparr>]"
    by (simp add: d1 newRound_def)
  from fair[of "1 / 4" votedServer freshServer, THEN conjunct2, THEN conjunct2, rule_format,
      OF conjI[OF l2 f2]]
  obtain k where k: "k < length (roundDocs votedServer)"
    "roundDocs (endVotingPhase_v1 (1 / 4) votedServer) =
       (roundDocs votedServer)[k := \<lparr>roundNumber = 1, status = Voting,
            votes = \<lparr>red = 1, black = 0\<rparr>,
            participants = [''walletX''], winningColor = None,
            winner = None, prizeAmount = 0\<rparr>\<lparr>winningColor := Some (drawColor (1 / 4)),
                                  status := Spinning\<rparr>]"
    "roundDocs (endVotingPhase_v2 (1 / 4) votedServer) =
       (roundDocs votedServer)[k := \<lparr>roundNumber = 1, status = Voting,
            votes = \<lparr>red = 1, black = 0\<rparr>,
            participants = [''walletX''], winningColor = None,
            winner = None, prizeAmount = 0\<rparr>\<lparr>winningColor := Some (drawColor (1 / 4)),
                                  status := Spinning\<rparr>]"
    by blast
  then have "k = 0" by (simp add: d2)
  with k(2,3) c1 have c3:
    "map winningColor (roundDocs (endVotingPhase_v1 (1 / 4) votedServer)) = [Some Red] \<and>
     map votes (roundDocs (endVotingPhase_v1 (1 / 4) votedServer)) = [\<lparr>red = 1, black = 0\<rparr>] \<and>
     map winningColor (roundDocs (endVotingPhase_v2 (1 / 4) votedServer)) = [Some Red]"
    by (simp add: d2)
  from c1 c2 c3 show ?thesis by simp
qed

subsection \<open>A round without a winner\<close>




subsection \<open>Starting the engine\<close>

lemma loadGameState_loaded:
  "\<exists>g. currentGameState (loadGameState s) = Some g \<and> gameStateDoc (loadGameState s) = Some g \<and>
       g = (case gameStateDoc s of Some h \<Rightarrow> h | None \<Rightarrow> newGameState)"
  by (simp add: loadGameState_def saveGameState_def split: option.splits)

lemma loadGameState_fixed:
  "currentGameState s = Some g \<Longrightarrow> gameStateDoc s = Some g \<Longrightarrow> loadGameState s = s"
  by (simp add: loadGameState_def)


lemma find_updateOne_same:
  "find P xs = Some x \<Longrightarrow> P (f x) \<Longrightarrow> find P (updateOne P f xs) = Some (f x)"
  by (induction xs) (auto split: if_splits)

lemma ensureCurrentRound_v1_settles:
  assumes "currentGameState s = Some g"
  shows "\<exists>s'. ensureCurrentRound_v1 s = Some s' \<and> ensureCurrentRound_v1 s' = Some s' \<and>
           s' = s\<lparr>roundDocs := roundDocs s'\<rparr>"
proof (cases "find (\<lambda>x. roundNumber x = currentRound g) (roundDocs s)")
  case None
  then show ?thesis
    using assms by (simp add: ensureCurrentRound_v1_def find_append newRound_def)
next
  case (Some x)
  show ?thesis
  proof (cases "status x = Voting")
    case True
    with Some assms show ?thesis by (simp add: ensureCurrentRound_v1_def)
  next
    case False
    let ?f = "\<lambda>x. x\<lparr>status := Voting, votes := \<lparr>red = 0, black = 0\<rparr>, participants := []\<rparr>"
    have "roundNumber x = currentRound g"
      using find_Some_holds[OF Some] by simp
    then have "find (\<lambda>x. roundNumber x = currentRound g)
        (updateOne (\<lambda>x. roundNumber x = currentRound g) ?f (roundDocs s)) = Some (?f x)"
      using Some by (intro find_updateOne_same) simp_all
    with Some False assms show ?thesis by (simp add: ensureCurrentRound_v1_def)
  qed
qed

lemma ensureCurrentRound_v1_startRoundTimer:
  "ensureCurrentRound_v1 (startRoundTimer s) = map_option startRoundTimer (ensureCurrentRound_v1 s)"
  by (simp add: ensureCurrentRound_v1_def startRoundTimer_def split: option.splits)

lemma startRoundTimer_twice: "startRoundTimer (startRoundTimer s) = startRoundTimer s"
  by (simp add: startRoundTimer_def)

lemma initializeGameState_v1_idem:
  "initializeGameState_v1 (initializeGameState_v1 s) = initializeGameState_v1 s"
proof -
  from loadGameState_loaded[of s] obtain g where
    g: "currentGameState (loadGameState s) = Some g" "gameStateDoc (loadGameState s) = Some g"
    by blast
  from ensureCurrentRound_v1_settles[OF g(1)] obtain s' where
    s': "ensureCurrentRound_v1 (loadGameState s) = Some s'" "ensureCurrentRound_v1 s' = Some s'"
      "s' = (loadGameState s)\<lparr>roundDocs := roundDocs s'\<rparr>"
    by blast
  have once: "initializeGameState_v1 s = startRoundTimer s'"
    by (simp add: initializeGameState_v1_def s'(1))
  have "currentGameState s' = Some g" "gameStateDoc s' = Some g"
    using g by (subst s'(3), simp)+
  then have fixed: "loadGameState (startRoundTimer s') = startRoundTimer s'"
    by (intro loadGameState_fixed[of _ g]) (simp_all add: startRoundTimer_def)
  have "initializeGameState_v1 (startRoundTimer s') =
      (case ensureCurrentRound_v1 (loadGameState (startRoundTimer s')) of
         None \<Rightarrow> loadGameState (startRoundTimer s')
       | Some s'' \<Rightarrow> startRoundTimer s'')"
    by (simp only: initializeGameState_v1_def)
  also have "\<dots> = startRoundTimer s'"
    by (simp add: fixed ensureCurrentRound_v1_startRoundTimer s'(2) startRoundTimer_twice)
  finally show ?thesis
    by (simp only: once)
qed

lemma ensureCurrentRound_v2_settles:
  "ensureCurrentRound_v2 (ensureCurrentRound_v2 s) = ensureCurrentRound_v2 s"
proof (cases "currentGameState s")
  case None
  then show ?thesis by (simp add: ensureCurrentRound_v2_def)
next
  case (Some g)
  show ?thesis
  proof (cases "find (\<lambda>x. roundNumber x = currentRound g) (roundDocs s)")
    case None
    then have "find (\<lambda>x. roundNumber x = currentRound g \<and> status x \<in> {Voting, Spinning})
        (roundDocs s) = None"
      by (auto simp: find_None_iff)
    with None Some show ?thesis
      by (simp add: ensureCurrentRound_v2_def find_append newRound_def)
  next
    case found: (Some x)
    with Some show ?thesis
      by (simp add: ensureCurrentRound_v2_def split: option.splits)
  qed
qed

lemma ensureCurrentRound_v2_startVerificationPhase:
  "ensureCurrentRound_v2 (startVerificationPhase s) =
     startVerificationPhase (ensureCurrentRound_v2 s)"
  by (simp add: ensureCurrentRound_v2_def startVerificationPhase_def split: option.splits)

lemma ensureCurrentRound_v2_frame:
  "currentGameState (ensureCurrentRound_v2 s) = currentGameState s \<and>
   gameStateDoc (ensureCurrentRound_v2 s) = gameStateDoc s \<and>
   pendingTimeouts (ensureCurrentRound_v2 s) = pendingTimeouts s"
  by (simp add: ensureCurrentRound_v2_def split: option.splits)

lemma initializeGameState_v2_idem:
  "initializeGameState_v2 (initializeGameState_v2 s) = initializeGameState_v2 s"
proof -
  from loadGameState_loaded[of s] obtain g where
    g: "currentGameState (loadGameState s) = Some g" "gameStateDoc (loadGameState s) = Some g"
    by blast
  let ?s' = "ensureCurrentRound_v2 (loadGameState s)"
  have fixed: "loadGameState (startVerificationPhase ?s') = startVerificationPhase ?s'"
    using g by (intro loadGameState_fixed[of _ g])
      (simp_all add: startVerificationPhase_def ensureCurrentRound_v2_frame)
  have twice: "startVerificationPhase (startVerificationPhase ?s') = startVerificationPhase ?s'"
    by (simp add: startVerificationPhase_def)
  have "initializeGameState_v2 (startVerificationPhase ?s') =
      startVerificationPhase (ensureCurrentRound_v2 (loadGameState (startVerificationPhase ?s')))"
    by (simp only: initializeGameState_v2_def)
  also have "\<dots> = startVerificationPhase ?s'"
    by (simp only: fixed ensureCurrentRound_v2_startVerificationPhase
        ensureCurrentRound_v2_settles twice)
  finally show ?thesis
    by (simp only: initializeGameState_v2_def)
qed


lemma find_conj_first:
  "find P xs = Some x \<Longrightarrow> Q x \<Longrightarrow> find (\<lambda>y. P y \<and> Q y) xs = Some x"
  by (induction xs) (auto split: if_splits)

lemma initializeGameState_v1_timer:
  "serverTimeLeft (initializeGameState_v1 s) = of_int (ROUND_DURATION s) / 1000 \<and>
   serverTimerInterval (initializeGameState_v1 s) = Some VotingCountdown \<and>
   pendingTimeouts (initializeGameState_v1 s) = pendingTimeouts s \<and>
   currentGameState (initializeGameState_v1 s) =
     Some (case gameStateDoc s of Some h \<Rightarrow> h | None \<Rightarrow> newGameState)"
  by (simp add: initializeGameState_v1_def ensureCurrentRound_v1_def startRoundTimer_def
      loadGameState_def saveGameState_def split: option.splits)

lemma initializeGameState_v2_timer:
  "phaseTimeLeft (initializeGameState_v2 s) = 300 \<and>
   currentPhase (initializeGameState_v2 s) = PhaseVoting \<and>
   serverTimerInterval (initializeGameState_v2 s) = Some VotingCountdown \<and>
   pendingTimeouts (initializeGameState_v2 s) = pendingTimeouts s \<and>
   currentGameState (initializeGameState_v2 s) =
     Some (case gameStateDoc s of Some h \<Rightarrow> h | None \<Rightarrow> newGameState)"
  by (simp add: initializeGameState_v2_def ensureCurrentRound_v2_def startVerificationPhase_def
      loadGameState_def saveGameState_def split: option.splits)

lemma initializeGameState_rounds:
  assumes "g = (case gameStateDoc s of Some h \<Rightarrow> h | None \<Rightarrow> newGameState)"
  shows "(find (\<lambda>x. roundNumber x = currentRound g) (roundDocs s) = None \<longrightarrow>
      roundDocs (initializeGameState_v1 s) = roundDocs s @ [newRound (currentRound g)] \<and>
      roundDocs (initializeGameState_v2 s) = roundDocs s @ [newRound (currentRound g)]) \<and>
    (\<forall>x. find (\<lambda>x. roundNumber x = currentRound g) (roundDocs s) = Some x \<and> status x = Voting
       \<longrightarrow> roundDocs (initializeGameState_v1 s) = roundDocs s \<and>
           roundDocs (initializeGameState_v2 s) = roundDocs s) \<and>
    (\<forall>x. find (\<lambda>x. roundNumber x = currentRound g \<and> status x \<in> {Voting, Spinning})
            (roundDocs s) = Some x
       \<longrightarrow> roundDocs (initializeGameState_v2 s) = roundDocs s)"
proof -
  have g: "currentGameState (loadGameState s) = Some g"
    and docs: "roundDocs (loadGameState s) = roundDocs s"
    using assms by (simp_all add: loadGameState_def saveGameState_def split: option.splits)
  have a: "roundDocs (initializeGameState_v1 s) = roundDocs s @ [newRound (currentRound g)] \<and>
      roundDocs (initializeGameState_v2 s) = roundDocs s @ [newRound (currentRound g)]"
    if none: "find (\<lambda>x. roundNumber x = currentRound g) (roundDocs s) = None"
  proof -
    have "find (\<lambda>x. roundNumber x = currentRound g \<and> status x \<in> {Voting, Spinning})
        (roundDocs s) = None"
      using none by (auto simp: find_None_iff)
    with none g docs show ?thesis
      by (simp add: initializeGameState_v1_def initializeGameState_v2_def
          ensureCurrentRound_v1_def ensureCurrentRound_v2_def startRoundTimer_def
          startVerificationPhase_def)
  qed
  have b: "roundDocs (initializeGameState_v1 s) = roundDocs s \<and>
           roundDocs (initializeGameState_v2 s) = roundDocs s"
    if "find (\<lambda>x. roundNumber x = currentRound g) (roundDocs s) = Some x \<and> status x = Voting"
    for x
  proof -
    from that have "find (\<lambda>y. roundNumber y = currentRound g \<and> status y \<in> {Voting, Spinning})
        (roundDocs s) = Some x"
      by (intro find_conj_first) simp_all
    with that g docs show ?thesis
      by (simp add: initializeGameState_v1_def initializeGameState_v2_def
          ensureCurrentRound_v1_def ensureCurrentRound_v2_def startRoundTimer_def
          startVerificationPhase_def)
  qed
  have c: "roundDocs (initializeGameState_v2 s) = roundDocs s"
    if "find (\<lambda>x. roundNumber x = currentRound g \<and> status x \<in> {Voting, Spinning})
            (roundDocs s) = Some x" for x
    using that g docs
    by (simp add: initializeGameState_v2_def ensureCurrentRound_v2_def startVerificationPhase_def)
  from a b c show ?thesis by blast
qed

text \<open>
  C4 (as amended). \<open>initializeGameState\<close> is idempotent: run twice in succession it
  gives the state it gives when run once, so no second round is created and nothing is
  scheduled. It loads the stored game state (creating one with \<open>currentRound = 1\<close> when
  there is none) and, when no round holds the current number, appends that round in
  status voting; a current round that is open is kept as it is (the second variant also
  keeps a spinning one). In every case the countdown is restarted at the full voting
  duration (\<open>ROUND_DURATION / 1000\<close>, respectively 300 with the phase set to voting);
  the remaining time of the running phase is not resumed.
\<close>

theorem startup_idempotent_and_restarts_countdown:
  "initializeGameState_v1 (initializeGameState_v1 s) = initializeGameState_v1 s \<and>
   initializeGameState_v2 (initializeGameState_v2 s) = initializeGameState_v2 s \<and>
   serverTimeLeft (initializeGameState_v1 s) = of_int (ROUND_DURATION s) / 1000 \<and>
   serverTimerInterval (initializeGameState_v1 s) = Some VotingCountdown \<and>
   pendingTimeouts (initializeGameState_v1 s) = pendingTimeouts s \<and>
   phaseTimeLeft (initializeGameState_v2 s) = 300 \<and>
   currentPhase (initializeGameState_v2 s) = PhaseVoting \<and>
   serverTimerInterval (initializeGameState_v2 s) = Some VotingCountdown \<and>
   pendingTimeouts (initializeGameState_v2 s) = pendingTimeouts s \<and>
   (let g = (case gameStateDoc s of Some h \<Rightarrow> h | None \<Rightarrow> newGameState)
    in currentGameState (initializeGameState_v1 s) = Some g \<and>
       currentGameState (initializeGameState_v2 s) = Some g \<and>
       (find (\<lambda>x. roundNumber x = currentRound g) (roundDocs s) = None \<longrightarrow>
          roundDocs (initializeGameState_v1 s) = roundDocs s @ [newRound (currentRound g)] \<and>
          roundDocs (initializeGameState_v2 s) = roundDocs s @ [newRound (currentRound g)]) \<and>
       (\<forall>x. find (\<lambda>x. roundNumber x = currentRound g) (roundDocs s) = Some x \<and>
            status x = Voting \<longrightarrow>
          roundDocs (initializeGameState_v1 s) = roundDocs s \<and>
          roundDocs (initializeGameState_v2 s) = roundDocs s) \<and>
       (\<forall>x. find (\<lambda>x. roundNumber x = currentRound g \<and> status x \<in> {Voting, Spinning})
               (roundDocs s) = Some x \<longrightarrow>
          roundDocs (initializeGameState_v2 s) = roundDocs s))"
  using initializeGameState_rounds[OF refl, of s]
  by (simp only: Let_def initializeGameState_v1_idem initializeGameState_v2_idem
      initializeGameState_v1_timer initializeGameState_v2_timer simp_thms)

text \<open>
  C4 as stated fails: a start-up in the middle of a round does not resume the remaining
  time (12 of 30 seconds, respectively 120 of 300) but restarts the full countdown, and
  it does not resume a spinning round's phase either: the first variant puts the round
  back to voting, the second leaves the round spinning and sets the phase to voting.
\<close>

theorem startup_restarts_countdown_instead_of_resuming:
  "map status (roundDocs midRoundServer) = [Voting] \<and>
   serverTimeLeft midRoundServer = 12 \<and>
   serverTimeLeft (initializeGameState_v1 midRoundServer) = 30 \<and>
   phaseTimeLeft midRoundServer = 120 \<and>
   phaseTimeLeft (initializeGameState_v2 midRoundServer) = 300 \<and>
   map status (roundDocs spinningServer) = [Spinning] \<and>
   currentPhase spinningServer = PhaseSpinning \<and>
   map status (roundDocs (initializeGameState_v1 spinningServer)) = [Voting] \<and>
   map status (roundDocs (initializeGameState_v2 spinningServer)) = [Spinning] \<and>
   currentPhase (initializeGameState_v2 spinningServer) = PhaseVoting"
  by (simp add: midRoundServer_def example_defs initializeGameState_v1_def
      initializeGameState_v2_def ensureCurrentRound_v1_def ensureCurrentRound_v2_def
      startRoundTimer_def startVerificationPhase_def loadGameState_def)

theorem startup_idempotent_and_restarts_countdown_witness:
  "roundDocs (initializeGameState_v1 emptyServer) = [newRound 1] \<and>
   roundDocs (initializeGameState_v2 emptyServer) = [newRound 1] \<and>
   roundDocs (initializeGameState_v1 (initializeGameState_v1 emptyServer)) = [newRound 1] \<and>
   roundDocs (initializeGameState_v2 (initializeGameState_v2 emptyServer)) = [newRound 1] \<and>
   roundDocs (initializeGameState_v1 votedServer) = roundDocs votedServer \<and>
   roundDocs (initializeGameState_v2 spinningServer) = roundDocs spinningServer"
proof -
  have e: "gameStateDoc emptyServer = None" "roundDocs emptyServer = []"
    by (simp_all add: emptyServer_def)
  have v: "gameStateDoc votedServer = Some newGameState"
    "find (\<lambda>x. roundNumber x = currentRound newGameState) (roundDocs votedServer) =
       Some \<lparr>roundNumber = 1, status = Voting, votes = \<lparr>red = 1, black = 0\<rparr>,
            participants = [''walletX''], winningColor = None,
            winner = None, prizeAmount = 0\<rparr>"
    by (simp_all add: example_defs)
  have sp: "gameStateDoc spinningServer = Some newGameState"
    "find (\<lambda>x. roundNumber x = currentRound newGameState \<and> status x \<in> {Voting, Spinning})
       (roundDocs spinningServer) =
       Some \<lparr>roundNumber = 1, status = Spinning, votes = \<lparr>red = 1, black = 0\<rparr>,
            participants = [''walletX''], winningColor = Some Red,
            winner = None, prizeAmount = 5\<rparr>"
    by (simp_all add: example_defs)
  note idem = startup_idempotent_and_restarts_countdown
  have 1: "roundDocs (initializeGameState_v1 emptyServer) = [newRound 1] \<and>
      roundDocs (initializeGameState_v2 emptyServer) = [newRound 1]"
    using idem[of emptyServer] e by (simp add: Let_def newGameState_def)
  have 2: "initializeGameState_v1 (initializeGameState_v1 emptyServer) =
        initializeGameState_v1 emptyServer \<and>
      initializeGameState_v2 (initializeGameState_v2 emptyServer) =
        initializeGameState_v2 emptyServer"
    using idem[of emptyServer] by blast
  have 3: "roundDocs (initializeGameState_v1 votedServer) = roundDocs votedServer"
    using idem[of votedServer] v by (simp add: Let_def)
  have 4: "roundDocs (initializeGameState_v2 spinningServer) = roundDocs spinningServer"
    using idem[of spinningServer] sp by (simp add: Let_def)
  from 1 2 3 4 show ?thesis by simp
qed

subsection \<open>Tallies never decrease and freeze after voting\<close>


















































end
